theory Spec2Isabelle
  imports Main
begin

section \<open>Glitch object analyzer (analyze_objects.py)\<close>

text \<open>
  A shallow embedding of \<^verbatim>\<open>GlitchObjectAnalyzer\<close>. Every method becomes a function
  over explicit values: the directory listing and the outcome of reading each file are
  inputs, the dictionary \<^verbatim>\<open>self.objects\<close> and the lines printed by the loader are
  outputs, and every exception the Python can raise is a value of type \<open>error\<close>.
\<close>

subsection \<open>Strings and integers of the interpreter\<close>

text \<open>\<^verbatim>\<open>s.startswith(p)\<close>, \<^verbatim>\<open>s.endswith(p)\<close>.\<close>

definition startswith :: "string \<Rightarrow> string \<Rightarrow> bool" where
  "startswith s p = (take (length p) s = p)"

definition endswith :: "string \<Rightarrow> string \<Rightarrow> bool" where
  "endswith s p = (length p \<le> length s \<and> drop (length s - length p) s = p)"

text \<open>
  A character is a code point below 256. \<^verbatim>\<open>int(s)\<close> on a string, base 10: the white
  space around the literal is stripped, one sign is allowed, then decimal digits, where
  single underscores may stand between two digits. \<open>None\<close> is the \<^verbatim>\<open>ValueError\<close>.
  Among the code points below 256 the white space \<^verbatim>\<open>int\<close> strips is the six ASCII
  characters (space, tab, line feed, vertical tab, form feed, carriage return), the next
  line character U+0085 and the no-break space U+00A0; the separators U+001C to U+001F are
  not stripped. The only decimal digits below 256 are 0 to 9. The interpreter's limit on
  the number of digits is a setting (\<^verbatim>\<open>sys.set_int_max_str_digits\<close>) and is taken as
  switched off.
\<close>

definition is_space :: "char \<Rightarrow> bool" where
  "is_space c =
     (c \<in> set [CHR '' '', CHR 0x09, CHR 0x0A, CHR 0x0B, CHR 0x0C, CHR 0x0D, CHR 0x85, CHR 0xA0])"

definition is_digit :: "char \<Rightarrow> bool" where
  "is_digit c = (c \<in> set ''0123456789'')"

definition digit_val :: "char \<Rightarrow> int" where
  "digit_val c = of_char c - 48"

definition strip :: "string \<Rightarrow> string" where
  "strip s = rev (dropWhile is_space (rev (dropWhile is_space s)))"

fun digits_ok :: "string \<Rightarrow> bool" where
  "digits_ok [] = False"
| "digits_ok [c] = is_digit c"
| "digits_ok (c # d # r) =
     (is_digit c \<and> (if d = CHR ''_'' then digits_ok r else digits_ok (d # r)))"

definition digits_val :: "string \<Rightarrow> int" where
  "digits_val s = foldl (\<lambda>a c. 10 * a + digit_val c) 0 (filter (\<lambda>c. c \<noteq> CHR ''_'') s)"

definition py_int :: "string \<Rightarrow> int option" where
  "py_int s =
     (case strip s of
        [] \<Rightarrow> None
      | c # r \<Rightarrow>
          if c = CHR ''-'' then (if digits_ok r then Some (- digits_val r) else None)
          else if c = CHR ''+'' then (if digits_ok r then Some (digits_val r) else None)
          else if digits_ok (c # r) then Some (digits_val (c # r)) else None)"

subsection \<open>Dictionaries\<close>

text \<open>
  A Python \<^verbatim>\<open>dict\<close> keeps its keys in insertion order, and an assignment to a key that
  is already there replaces the value in place. It is an association list here;
  \<open>map_of\<close> is the lookup, and \<open>dict_set\<close> is \<^verbatim>\<open>d[k] = v\<close>.
\<close>

fun dict_set :: "'k \<Rightarrow> 'v \<Rightarrow> ('k \<times> 'v) list \<Rightarrow> ('k \<times> 'v) list" where
  "dict_set k v [] = [(k, v)]"
| "dict_set k v ((k', v') # d) = (if k' = k then (k, v) # d else (k', v') # dict_set k v d)"

definition dict_values :: "('k \<times> 'v) list \<Rightarrow> 'v list" where
  "dict_values d = map snd d"

subsection \<open>Element trees\<close>

text \<open>
  An \<^verbatim>\<open>xml.etree.ElementTree.Element\<close>: its tag, its attributes, the text before its
  first child (\<open>None\<close> when there is none) and its children in document order.
\<close>

datatype element =
  Element (tag: string) (attrib: "(string \<times> string) list") (elem_text: "string option")
    (children: "element list")

text \<open>\<^verbatim>\<open>elem.get(key)\<close>: the attribute or \<^verbatim>\<open>None\<close>.\<close>

definition get :: "element \<Rightarrow> string \<Rightarrow> string option" where
  "get e key = map_of (attrib e) key"

text \<open>\<^verbatim>\<open>elem.iter()\<close>: the element and all its descendants, in document order.\<close>

fun iter :: "element \<Rightarrow> element list" where
  "iter (Element t a x cs) = Element t a x cs # concat (map iter cs)"

definition descendants :: "element \<Rightarrow> element list" where
  "descendants e = concat (map iter (children e))"

text \<open>
  \<^verbatim>\<open>elem.find('.//T[@id="I"]')\<close>: the first descendant, in document order, with tag
  \<open>T\<close> whose attribute \<^verbatim>\<open>id\<close> is \<open>I\<close>; and \<^verbatim>\<open>elem.findall('.//T')\<close>.
\<close>

definition find_by_id :: "element \<Rightarrow> string \<Rightarrow> string \<Rightarrow> element option" where
  "find_by_id e t i = List.find (\<lambda>d. tag d = t \<and> get d ''id'' = Some i) (descendants e)"

definition findall :: "element \<Rightarrow> string \<Rightarrow> element list" where
  "findall e t = filter (\<lambda>d. tag d = t) (descendants e)"

subsection \<open>Objects and the loader\<close>

datatype error =
  ParseError string
| ValueError string
| TypeError
| DateError int

text \<open>
  The dictionary \<^verbatim>\<open>parse_object\<close> returns; \<open>obj_class\<close> is its key \<^verbatim>\<open>'class'\<close>.
\<close>

record glitch_object =
  tsid :: "string option"
  label :: string
  obj_class :: string
  timestamp :: int
  container :: "string option"
  xml :: element

text \<open>
  \<^verbatim>\<open>parse_object\<close>. Its argument is what \<^verbatim>\<open>ET.parse(...).getroot()\<close> gives for the
  file: the root element, or the exception raised while reading or parsing.
  \<^verbatim>\<open>root.get('ts', 0)\<close> is the attribute string or the integer 0, and \<^verbatim>\<open>int\<close> of
  a string that is no integer literal raises \<^verbatim>\<open>ValueError\<close>.
\<close>

definition parse_object :: "error + element \<Rightarrow> error + glitch_object" where
  "parse_object doc =
     (case doc of
        Inl e \<Rightarrow> Inl e
      | Inr root \<Rightarrow>
          (case (case get root ''ts'' of
                   None \<Rightarrow> Inr 0
                 | Some s \<Rightarrow> (case py_int s of None \<Rightarrow> Inl (ValueError s) | Some n \<Rightarrow> Inr n)) of
             Inl e \<Rightarrow> Inl e
           | Inr ts \<Rightarrow>
               Inr \<lparr> tsid = get root ''tsid'',
                     label = (case get root ''label'' of None \<Rightarrow> ''Unknown'' | Some l \<Rightarrow> l),
                     obj_class = (case get root ''class_tsid'' of None \<Rightarrow> ''unknown'' | Some c \<Rightarrow> c),
                     timestamp = ts,
                     container = get root ''container'',
                     xml = root \<rparr>))"

text \<open>
  \<^verbatim>\<open>load_objects\<close>. The directory is the list \<^verbatim>\<open>os.listdir\<close> returns, each name
  with the outcome of reading that file. The state of the loop is \<^verbatim>\<open>self.objects\<close>
  and the lines printed so far: \<open>(filename, e)\<close> stands for the line
  \<^verbatim>\<open>Error loading {filename}: {e}\<close>.
\<close>

type_synonym objects = "(string \<times> glitch_object) list"
type_synonym directory = "(string \<times> (error + element)) list"

fun load_loop :: "directory \<Rightarrow> objects \<times> (string \<times> error) list
    \<Rightarrow> objects \<times> (string \<times> error) list" where
  "load_loop [] st = st"
| "load_loop ((filename, doc) # rest) (objs, out) =
     (if endswith filename ''.xml'' then
        (case parse_object doc of
           Inr obj \<Rightarrow>
             load_loop rest (dict_set (take (length filename - 4) filename) obj objs, out)
         | Inl e \<Rightarrow> load_loop rest (objs, out @ [(filename, e)]))
      else load_loop rest (objs, out))"

definition load_objects :: "directory \<Rightarrow> objects \<times> (string \<times> error) list" where
  "load_objects dir = load_loop dir ([], [])"

subsection \<open>Counting by type\<close>

text \<open>
  The \<^verbatim>\<open>if\<close>/\<^verbatim>\<open>elif\<close> chain of \<^verbatim>\<open>get_object_counts\<close>: the key whose counter the
  loop body increments for a class.
\<close>

definition classify :: "string \<Rightarrow> string" where
  "classify class_type =
     (if startswith class_type ''bag_'' then ''Bags''
      else if class_type = ''dc'' then ''Data Containers''
      else if class_type = ''human'' then ''Players''
      else if class_type = ''group'' then ''Groups''
      else if startswith class_type ''trant_'' then ''Trees/Plants''
      else ''Items'')"

text \<open>\<^verbatim>\<open>counts[k] += 1\<close> on a \<^verbatim>\<open>defaultdict(int)\<close>.\<close>

definition incr :: "string \<Rightarrow> (string \<times> int) list \<Rightarrow> (string \<times> int) list" where
  "incr k counts = dict_set k ((case map_of counts k of None \<Rightarrow> 0 | Some n \<Rightarrow> n) + 1) counts"

fun count_loop :: "glitch_object list \<Rightarrow> (string \<times> int) list \<Rightarrow> (string \<times> int) list" where
  "count_loop [] counts = counts"
| "count_loop (obj # rest) counts = count_loop rest (incr (classify (obj_class obj)) counts)"

definition get_object_counts :: "objects \<Rightarrow> (string \<times> int) list" where
  "get_object_counts objs = count_loop (dict_values objs) []"

definition categories :: "string list" where
  "categories = [''Bags'', ''Data Containers'', ''Players'', ''Groups'', ''Trees/Plants'', ''Items'']"

subsection \<open>Containment\<close>

text \<open>
  \<^verbatim>\<open>find_containers\<close>: the loop over \<^verbatim>\<open>self.objects.values()\<close> that appends to
  the list \<^verbatim>\<open>contained\<close> (here \<open>cont\<close>) every object whose \<^verbatim>\<open>'container'\<close> equals
  the argument. The argument is optional because
  \<^verbatim>\<open>main\<close> passes \<^verbatim>\<open>player['tsid']\<close>, which is \<^verbatim>\<open>None\<close> for a root without
  that attribute.
\<close>

fun find_loop :: "glitch_object list \<Rightarrow> string option \<Rightarrow> glitch_object list
    \<Rightarrow> glitch_object list" where
  "find_loop [] container_tsid cont = cont"
| "find_loop (obj # rest) container_tsid cont =
     find_loop rest container_tsid
       (if container obj = container_tsid then cont @ [obj] else cont)"

definition find_containers :: "objects \<Rightarrow> string option \<Rightarrow> glitch_object list" where
  "find_containers objs container_tsid = find_loop (dict_values objs) container_tsid []"

subsection \<open>Player analysis\<close>

text \<open>A method that returns either a message string or a result.\<close>

datatype 'r outcome = Message string | Result 'r

text \<open>\<^verbatim>\<open>{x}\<close> inside an f-string, for a value that is a string or \<^verbatim>\<open>None\<close>.\<close>

definition py_str :: "string option \<Rightarrow> string" where
  "py_str v = (case v of None \<Rightarrow> ''None'' | Some s \<Rightarrow> s)"

text \<open>
  The metabolics of \<^verbatim>\<open>analyze_player\<close> (the lines from \<^verbatim>\<open># Extract metabolics\<close>
  to the assignment of \<^verbatim>\<open>tank\<close>): energy, mood and tank. The tank is the text of its
  element, which may be \<^verbatim>\<open>None\<close>.
\<close>

definition metabolics_of :: "element \<Rightarrow> string \<times> string \<times> string option" where
  "metabolics_of x =
     (case find_by_id x ''object'' ''metabolics'' of
        None \<Rightarrow> (''Unknown'', ''Unknown'', Some ''Unknown'')
      | Some metabolics \<Rightarrow>
          ((case find_by_id metabolics ''prop'' ''energy'' of
              None \<Rightarrow> ''Unknown''
            | Some energy_prop \<Rightarrow>
                py_str (elem_text energy_prop) @ ''/'' @ py_str (get energy_prop ''top'')),
           (case find_by_id metabolics ''prop'' ''mood'' of
              None \<Rightarrow> ''Unknown''
            | Some mood_prop \<Rightarrow>
                py_str (elem_text mood_prop) @ ''/'' @ py_str (get mood_prop ''top'')),
           (case find_by_id metabolics ''int'' ''tank'' of
              None \<Rightarrow> Some ''Unknown''
            | Some tank_elem \<Rightarrow> elem_text tank_elem)))"

record 'd player_info =
  name :: string
  player_key :: string
  energy :: string
  mood :: string
  tank :: "string option"
  references :: nat
  last_update :: 'd

text \<open>
  \<^verbatim>\<open>analyze_player\<close>. The parameter \<open>from_ms\<close> stands for
  \<^verbatim>\<open>datetime.fromtimestamp(ts / 1000)\<close>, the float division included; it is \<open>None\<close>
  where the library raises. \<open>player_key\<close> is the key \<^verbatim>\<open>'tsid'\<close> of the result.
\<close>

definition analyze_player ::
    "(int \<Rightarrow> 'd option) \<Rightarrow> objects \<Rightarrow> string \<Rightarrow> error + 'd player_info outcome" where
  "analyze_player from_ms objs player_tsid =
     (case map_of objs player_tsid of
        None \<Rightarrow> Inr (Message (''Player '' @ player_tsid @ '' not found''))
      | Some player \<Rightarrow>
          (case metabolics_of (xml player) of
             (e, m, t) \<Rightarrow>
               (case from_ms (timestamp player) of
                  None \<Rightarrow> Inl (DateError (timestamp player))
                | Some d \<Rightarrow>
                    Inr (Result \<lparr> name = label player, player_key = player_tsid,
                                   energy = e, mood = m, tank = t,
                                   references = length (findall (xml player) ''objref''),
                                   last_update = d \<rparr>))))"

subsection \<open>Skills and achievements\<close>

text \<open>
  One entry of the list \<^verbatim>\<open>analyze_skills\<close> or \<^verbatim>\<open>analyze_achievements\<close> builds:
  \<open>item\<close> is the key \<^verbatim>\<open>'skill'\<close> or \<^verbatim>\<open>'achievement'\<close>, \<open>date\<close> is \<^verbatim>\<open>'learned'\<close>
  or \<^verbatim>\<open>'completed'\<close>, \<open>stamp\<close> is \<^verbatim>\<open>'timestamp'\<close>.
\<close>

record 'd progress =
  item :: "string option"
  date :: 'd
  stamp :: int

text \<open>
  The loop over the children of the collection element, the same in both methods. The
  parameter \<open>fromtimestamp\<close> stands for \<^verbatim>\<open>datetime.fromtimestamp\<close> on an integer,
  \<open>None\<close> where the library raises. \<^verbatim>\<open>int(None)\<close> raises \<^verbatim>\<open>TypeError\<close>. The first
  exception ends the loop.
\<close>

fun collect :: "(int \<Rightarrow> 'd option) \<Rightarrow> element list \<Rightarrow> error + 'd progress list" where
  "collect fromtimestamp [] = Inr []"
| "collect fromtimestamp (c # cs) =
     (if tag c = ''int'' then
        (case elem_text c of
           None \<Rightarrow> Inl TypeError
         | Some s \<Rightarrow>
             (case py_int s of
                None \<Rightarrow> Inl (ValueError s)
              | Some t \<Rightarrow>
                  (case fromtimestamp t of
                     None \<Rightarrow> Inl (DateError t)
                   | Some d \<Rightarrow>
                       (case collect fromtimestamp cs of
                          Inl e \<Rightarrow> Inl e
                        | Inr es \<Rightarrow> Inr (\<lparr> item = get c ''id'', date = d, stamp = t \<rparr> # es)))))
      else collect fromtimestamp cs)"

text \<open>
  \<^verbatim>\<open>key in self.objects\<close> followed by \<^verbatim>\<open>self.objects[key]\<close>, for a key that may be
  \<^verbatim>\<open>None\<close> (\<^verbatim>\<open>main\<close> passes \<^verbatim>\<open>ref.get('tsid')\<close>).
\<close>

definition lookup :: "objects \<Rightarrow> string option \<Rightarrow> glitch_object option" where
  "lookup objs key = (case key of None \<Rightarrow> None | Some k \<Rightarrow> map_of objs k)"

text \<open>\<^verbatim>\<open>list.sort(key=...)\<close> is stable, as \<open>sort_key\<close> is.\<close>

definition analyze_skills ::
    "(int \<Rightarrow> 'd option) \<Rightarrow> objects \<Rightarrow> string option \<Rightarrow> error + 'd progress list outcome" where
  "analyze_skills fromtimestamp objs skills_tsid =
     (case lookup objs skills_tsid of
        None \<Rightarrow> Inr (Message ''Skills object not found'')
      | Some skills_obj \<Rightarrow>
          (case find_by_id (xml skills_obj) ''object'' ''skills'' of
             None \<Rightarrow> Inr (Message ''No skills data found'')
           | Some skills_elem \<Rightarrow>
               (case collect fromtimestamp (children skills_elem) of
                  Inl e \<Rightarrow> Inl e
                | Inr skills \<Rightarrow> Inr (Result (sort_key stamp skills)))))"

definition analyze_achievements ::
    "(int \<Rightarrow> 'd option) \<Rightarrow> objects \<Rightarrow> string option \<Rightarrow> error + 'd progress list outcome" where
  "analyze_achievements fromtimestamp objs achievements_tsid =
     (case lookup objs achievements_tsid of
        None \<Rightarrow> Inr (Message ''Achievements object not found'')
      | Some ach_obj \<Rightarrow>
          (case find_by_id (xml ach_obj) ''object'' ''achievements'' of
             None \<Rightarrow> Inr (Message ''No achievements data found'')
           | Some ach_elem \<Rightarrow>
               (case collect fromtimestamp (children ach_elem) of
                  Inl e \<Rightarrow> Inl e
                | Inr achievements \<Rightarrow> Inr (Result (sort_key stamp achievements)))))"

subsection \<open>Vocabulary of the properties\<close>

text \<open>
  The documents of a directory are its entries whose name ends in \<^verbatim>\<open>.xml\<close>; the
  identifier of a document is its name without the last four characters.
\<close>

definition stem :: "string \<Rightarrow> string" where
  "stem filename = take (length filename - 4) filename"

definition documents :: "directory \<Rightarrow> directory" where
  "documents dir = filter (\<lambda>(filename, doc). endswith filename ''.xml'') dir"

text \<open>The documents that parse, each with its identifier, and those that do not.\<close>

definition parsed :: "directory \<Rightarrow> (string \<times> glitch_object) list" where
  "parsed dir =
     concat (map (\<lambda>(filename, doc).
       case parse_object doc of Inr obj \<Rightarrow> [(stem filename, obj)] | Inl e \<Rightarrow> []) (documents dir))"

definition failed :: "directory \<Rightarrow> (string \<times> error) list" where
  "failed dir =
     concat (map (\<lambda>(filename, doc).
       case parse_object doc of Inr obj \<Rightarrow> [] | Inl e \<Rightarrow> [(filename, e)]) (documents dir))"

text \<open>The value of a counter, 0 for a key that is not there.\<close>

definition count_of :: "(string \<times> int) list \<Rightarrow> string \<Rightarrow> int" where
  "count_of counts c = (case map_of counts c of None \<Rightarrow> 0 | Some n \<Rightarrow> n)"

text \<open>
  The integer a child carries, when its text is an integer literal, and whether the
  loop gets past a child: every child tagged \<^verbatim>\<open>int\<close> must carry an integer that
  converts to a date.
\<close>

definition int_value :: "element \<Rightarrow> int option" where
  "int_value c = Option.bind (elem_text c) py_int"

definition convertible :: "(int \<Rightarrow> 'd option) \<Rightarrow> element \<Rightarrow> bool" where
  "convertible fromtimestamp c =
     (tag c \<noteq> ''int'' \<or> Option.bind (int_value c) fromtimestamp \<noteq> None)"

definition entry_of :: "(int \<Rightarrow> 'd option) \<Rightarrow> element \<Rightarrow> 'd progress \<Rightarrow> bool" where
  "entry_of fromtimestamp c e =
     (item e = get c ''id'' \<and> Some (stamp e) = int_value c \<and>
      Some (date e) = Option.bind (int_value c) fromtimestamp)"

text \<open>The dictionary after the assignments \<^verbatim>\<open>d[k] = v\<close> for a list of pairs, in order.\<close>

definition store_all :: "('k \<times> 'v) list \<Rightarrow> ('k \<times> 'v) list \<Rightarrow> ('k \<times> 'v) list" where
  "store_all d xs = foldl (\<lambda>d (k, v). dict_set k v d) d xs"

subsection \<open>Example inputs\<close>

text \<open>A player, a bag the player holds, and a directory with a file that does not parse.\<close>

definition anna_root :: element where
  "anna_root =
     Element ''game_object''
       [(''tsid'', ''PANNA''), (''label'', ''Anna''), (''class_tsid'', ''human''),
        (''ts'', ''1354000000000'')] None
       [Element ''object'' [(''id'', ''metabolics'')] None
          [Element ''prop'' [(''id'', ''energy''), (''top'', ''100'')] (Some ''80'') []],
        Element ''objref'' [(''id'', ''skills''), (''tsid'', ''SKILLS'')] None []]"

definition bag_root :: element where
  "bag_root =
     Element ''game_object''
       [(''tsid'', ''BBAG''), (''label'', ''Big Bag''), (''class_tsid'', ''bag_large''),
        (''container'', ''PANNA'')] None []"

definition example_dir :: directory where
  "example_dir =
     [(''PANNA.xml'', Inr anna_root), (''BBAG.xml'', Inr bag_root),
      (''broken.xml'', Inl (ParseError ''no element found'')),
      (''README.md'', Inl (ParseError ''syntax error''))]"

definition anna :: glitch_object where
  "anna = \<lparr> tsid = Some ''PANNA'', label = ''Anna'', obj_class = ''human'',
            timestamp = 1354000000000, container = None, xml = anna_root \<rparr>"

definition bag :: glitch_object where
  "bag = \<lparr> tsid = Some ''BBAG'', label = ''Big Bag'', obj_class = ''bag_large'',
           timestamp = 0, container = Some ''PANNA'', xml = bag_root \<rparr>"

text \<open>A document whose root names another identifier than its file does.\<close>

definition renamed_root :: element where
  "renamed_root = Element ''game_object'' [(''tsid'', ''B'')] None []"

definition renamed :: glitch_object where
  "renamed = \<lparr> tsid = Some ''B'', label = ''Unknown'', obj_class = ''unknown'',
               timestamp = 0, container = None, xml = renamed_root \<rparr>"

text \<open>A listing that names one file three times, and a document with a bad time stamp.\<close>

definition twice_dir :: directory where
  "twice_dir =
     [(''A.xml'', Inr bag_root), (''A.xml'', Inr anna_root),
      (''A.xml'', Inl (ParseError ''no element found''))]"

definition late_root :: element where
  "late_root = Element ''game_object'' [(''tsid'', ''LATE''), (''ts'', ''soon'')] None []"

definition late_dir :: directory where
  "late_dir = [(''LATE.xml'', Inr late_root), (''BBAG.xml'', Inr bag_root)]"

text \<open>
  A player whose metabolics are empty, and a store with a skills object (the ids A, B, C
  with the times 300, 100, 200), an achievements object (one child without an id, one
  child that is no integer, two equal times) and a skills object whose second time is
  no integer.
\<close>

definition bob_root :: element where
  "bob_root =
     Element ''game_object'' [(''tsid'', ''PBOB''), (''class_tsid'', ''human'')] None
       [Element ''object'' [(''id'', ''metabolics'')] None []]"

definition bob :: glitch_object where
  "bob = \<lparr> tsid = Some ''PBOB'', label = ''Unknown'', obj_class = ''human'',
           timestamp = 0, container = None, xml = bob_root \<rparr>"

definition skills_elem :: element where
  "skills_elem =
     Element ''object'' [(''id'', ''skills'')] None
       [Element ''int'' [(''id'', ''A'')] (Some ''300'') [],
        Element ''int'' [(''id'', ''B'')] (Some ''100'') [],
        Element ''int'' [(''id'', ''C'')] (Some ''200'') []]"

definition skills_obj :: glitch_object where
  "skills_obj = \<lparr> tsid = Some ''SKILLS'', label = ''Unknown'', obj_class = ''dc'',
                  timestamp = 0, container = Some ''PANNA'',
                  xml = Element ''game_object'' [(''tsid'', ''SKILLS'')] None [skills_elem] \<rparr>"

definition ach_elem :: element where
  "ach_elem =
     Element ''object'' [(''id'', ''achievements'')] None
       [Element ''int'' [] (Some ''50'') [],
        Element ''str'' [(''id'', ''note'')] (Some ''first'') [],
        Element ''int'' [(''id'', ''second'')] (Some ''50'') [],
        Element ''int'' [(''id'', ''first'')] (Some ''20'') []]"

definition ach_obj :: glitch_object where
  "ach_obj = \<lparr> tsid = Some ''ACH'', label = ''Unknown'', obj_class = ''dc'',
               timestamp = 0, container = Some ''PANNA'',
               xml = Element ''game_object'' [(''tsid'', ''ACH'')] None [ach_elem] \<rparr>"

definition bad_obj :: glitch_object where
  "bad_obj = \<lparr> tsid = Some ''BAD'', label = ''Unknown'', obj_class = ''dc'',
               timestamp = 0, container = None,
               xml = Element ''game_object'' [(''tsid'', ''BAD'')] None
                 [Element ''object'' [(''id'', ''skills'')] None
                    [Element ''int'' [(''id'', ''A'')] (Some ''100'') [],
                     Element ''int'' [(''id'', ''B'')] (Some ''soon'') []]] \<rparr>"

definition progress_objs :: objects where
  "progress_objs =
     [(''SKILLS'', skills_obj), (''ACH'', ach_obj), (''BAD'', bad_obj), (''PBOB'', bob)]"

text \<open>A document whose time stamp is padded with a no-break space and a next line.\<close>

definition padded_root :: element where
  "padded_root = Element ''game_object'' [(''ts'', CHR 0xA0 # ''12'' @ [CHR 0x85])] None []"

section \<open>Properties\<close>

subsection \<open>Dictionaries\<close>

lemma map_of_dict_set:
  "map_of (dict_set k v d) k' = (if k' = k then Some v else map_of d k')"
  by (induction d) auto

lemma keys_dict_set: "set (map fst (dict_set k v d)) = insert k (set (map fst d))"
proof (induction d)
  case Nil
  show ?case by simp
next
  case (Cons p d)
  obtain k' v' where p: "p = (k', v')" by (cases p)
  show ?case
  proof (cases "k' = k")
    case True
    then show ?thesis by (simp add: p)
  next
    case False
    then show ?thesis using Cons.IH by (simp add: p insert_commute)
  qed
qed

lemma distinct_dict_set: "distinct (map fst d) \<Longrightarrow> distinct (map fst (dict_set k v d))"
  by (induction d) (auto simp: keys_dict_set simp del: set_map)

lemma length_dict_set: "length (dict_set k v d) \<le> Suc (length d)"
  by (induction d) auto

lemma sum_dict_set:
  "sum_list (map snd (dict_set k v d)) =
     sum_list (map snd d) - (case map_of d k of None \<Rightarrow> 0 | Some n \<Rightarrow> n) + (v::int)"
  by (induction d) auto

lemma store_all_simps:
  "store_all d [] = d" "store_all d ((k, v) # xs) = store_all (dict_set k v d) xs"
  by (simp_all add: store_all_def)

lemma map_of_store_all:
  "map_of (store_all d xs) k' =
     (case map_of (rev xs) k' of None \<Rightarrow> map_of d k' | Some v \<Rightarrow> Some v)"
proof (induction xs arbitrary: d)
  case Nil
  show ?case by (simp add: store_all_simps)
next
  case (Cons x xs)
  obtain k v where x: "x = (k, v)" by (cases x)
  show ?case unfolding x
    by (simp add: store_all_simps Cons.IH map_of_dict_set map_add_def split: option.splits)
qed

lemma keys_store_all: "set (map fst (store_all d xs)) = set (map fst d) \<union> set (map fst xs)"
proof (induction xs arbitrary: d)
  case Nil
  show ?case by (simp add: store_all_simps)
next
  case (Cons x xs)
  obtain k v where x: "x = (k, v)" by (cases x)
  show ?case by (simp add: x store_all_simps Cons.IH keys_dict_set del: set_map)
qed

lemma distinct_store_all: "distinct (map fst d) \<Longrightarrow> distinct (map fst (store_all d xs))"
proof (induction xs arbitrary: d)
  case Nil
  then show ?case by (simp add: store_all_simps)
next
  case (Cons x xs)
  obtain k v where x: "x = (k, v)" by (cases x)
  show ?case by (simp add: x store_all_simps Cons.IH Cons.prems distinct_dict_set)
qed

lemma length_store_all: "length (store_all d xs) \<le> length d + length xs"
proof (induction xs arbitrary: d)
  case Nil
  show ?case by (simp add: store_all_simps)
next
  case (Cons x xs)
  obtain k v where x: "x = (k, v)" by (cases x)
  have "length (store_all (dict_set k v d) xs) \<le> length (dict_set k v d) + length xs"
    by (rule Cons.IH)
  also have "\<dots> \<le> Suc (length d) + length xs"
    using length_dict_set [of k v d] by simp
  finally show ?case by (simp add: x store_all_simps)
qed

subsection \<open>The loader as a fold\<close>

lemma parsed_Nil: "parsed [] = []" "failed [] = []"
  by (simp_all add: parsed_def failed_def documents_def)

lemma parsed_Cons:
  "parsed ((filename, doc) # dir) =
     (if endswith filename ''.xml''
      then (case parse_object doc of Inr obj \<Rightarrow> [(stem filename, obj)] | Inl e \<Rightarrow> []) @ parsed dir
      else parsed dir)"
  by (simp add: parsed_def documents_def)

lemma failed_Cons:
  "failed ((filename, doc) # dir) =
     (if endswith filename ''.xml''
      then (case parse_object doc of Inr obj \<Rightarrow> [] | Inl e \<Rightarrow> [(filename, e)]) @ failed dir
      else failed dir)"
  by (simp add: failed_def documents_def)

lemma load_loop_eq:
  "load_loop dir (objs, out) = (store_all objs (parsed dir), out @ failed dir)"
proof (induction dir arbitrary: objs out)
  case Nil
  show ?case by (simp add: parsed_Nil store_all_simps)
next
  case (Cons x dir)
  obtain filename doc where x: "x = (filename, doc)" by (cases x)
  show ?case unfolding x
    by (cases "parse_object doc")
       (simp_all add: Cons.IH parsed_Cons failed_Cons store_all_simps stem_def)
qed

lemma load_objects_eq: "load_objects dir = (store_all [] (parsed dir), failed dir)"
  by (simp add: load_objects_def load_loop_eq)

lemma length_parsed_failed: "length (parsed dir) + length (failed dir) = length (documents dir)"
proof (induction dir)
  case Nil
  show ?case by (simp add: parsed_Nil documents_def)
next
  case (Cons x dir)
  obtain filename doc where x: "x = (filename, doc)" by (cases x)
  have d: "documents ((filename, doc) # dir) =
      (if endswith filename ''.xml'' then (filename, doc) # documents dir else documents dir)"
    by (simp add: documents_def)
  show ?case unfolding x using Cons.IH
    by (cases "parse_object doc") (simp_all add: d parsed_Cons failed_Cons)
qed

lemma length_failed:
  "length (failed dir) =
     length (filter (\<lambda>(filename, doc). isl (parse_object doc)) (documents dir))"
proof -
  have "length (concat (map (\<lambda>(filename, doc).
          case parse_object doc of Inr obj \<Rightarrow> [] | Inl e \<Rightarrow> [(filename, e)]) ds)) =
        length (filter (\<lambda>(filename, doc). isl (parse_object doc)) ds)" for ds :: directory
    by (induction ds) (auto split: sum.splits)
  then show ?thesis by (simp add: failed_def)
qed

subsection \<open>Counting\<close>

lemma sum_incr: "sum_list (map snd (incr k counts)) = sum_list (map snd counts) + 1"
  by (simp add: incr_def sum_dict_set)

lemma sum_count_loop:
  "sum_list (map snd (count_loop os counts)) = sum_list (map snd counts) + int (length os)"
  by (induction os arbitrary: counts) (simp_all add: sum_incr)

lemma count_of_Nil: "count_of [] c = 0"
  by (simp add: count_of_def)

lemma count_of_incr: "count_of (incr k counts) c = count_of counts c + (if c = k then 1 else 0)"
  by (simp add: incr_def count_of_def map_of_dict_set)

lemma count_of_count_loop:
  "count_of (count_loop os counts) c =
     count_of counts c + int (length (filter (\<lambda>obj. classify (obj_class obj) = c) os))"
  by (induction os arbitrary: counts) (auto simp: count_of_incr)

lemma distinct_count_loop:
  "distinct (map fst counts) \<Longrightarrow> distinct (map fst (count_loop os counts))"
  by (induction os arbitrary: counts) (simp_all add: incr_def distinct_dict_set)

lemma classify_in_categories: "classify c \<in> set categories"
  by (simp add: classify_def categories_def)

lemma keys_count_loop:
  "set (map fst (count_loop os counts)) =
     set (map fst counts) \<union> set (map (\<lambda>obj. classify (obj_class obj)) os)"
  by (induction os arbitrary: counts) (auto simp: incr_def keys_dict_set simp del: set_map)

subsection \<open>The example directory\<close>

lemma py_int_padded:
  "py_int (CHR 0xA0 # ''12'') = Some 12"
  "py_int (''-7'' @ [CHR 0x85, CHR '' '']) = Some (- 7)"
  "py_int (CHR 0x1C # ''5'') = None"
  "py_int ''1_000'' = Some 1000"
  "py_int ''1__0'' = None"
  by (simp_all add: py_int_def strip_def is_space_def digits_val_def digit_val_def is_digit_def)

lemma parse_padded:
  "parse_object (Inr padded_root) =
     Inr \<lparr> tsid = None, label = ''Unknown'', obj_class = ''unknown'', timestamp = 12,
           container = None, xml = padded_root \<rparr>"
  by (simp add: parse_object_def padded_root_def get_def py_int_def strip_def is_space_def
      digits_val_def digit_val_def is_digit_def)

lemma parse_anna: "parse_object (Inr anna_root) = Inr anna"
  by (simp add: parse_object_def anna_root_def anna_def get_def py_int_def strip_def
      is_space_def digits_val_def digit_val_def is_digit_def)

lemma parse_bag: "parse_object (Inr bag_root) = Inr bag"
  by (simp add: parse_object_def bag_root_def bag_def get_def)

lemma load_example: "load_objects example_dir =
    ([(''PANNA'', anna), (''BBAG'', bag)], [(''broken.xml'', ParseError ''no element found'')])"
  by (simp add: load_objects_def example_dir_def endswith_def parse_anna parse_bag
      parse_object_def [of "Inl e" for e])

subsection \<open>Identifiers and membership\<close>

lemma endswith_stem: "endswith f ''.xml'' \<Longrightarrow> f = stem f @ ''.xml''"
proof -
  assume a: "endswith f ''.xml''"
  have "f = take (length f - 4) f @ drop (length f - 4) f" by simp
  also have "drop (length f - 4) f = ''.xml''" using a by (simp add: endswith_def eval_nat_numeral)
  finally show ?thesis by (simp add: stem_def)
qed

lemma stem_inj:
  "endswith f ''.xml'' \<Longrightarrow> endswith g ''.xml'' \<Longrightarrow> stem f = stem g \<Longrightarrow> f = g"
  using endswith_stem [of f] endswith_stem [of g] by simp

lemma parsed_memI:
  "(filename, doc) \<in> set dir \<Longrightarrow> endswith filename ''.xml'' \<Longrightarrow>
     parse_object doc = Inr obj \<Longrightarrow> (stem filename, obj) \<in> set (parsed dir)"
  by (force simp: parsed_def documents_def)

lemma parsed_memD:
  "(k, obj) \<in> set (parsed dir) \<Longrightarrow>
     \<exists>filename doc. (filename, doc) \<in> set dir \<and> endswith filename ''.xml'' \<and>
        parse_object doc = Inr obj \<and> k = stem filename"
proof (induction dir)
  case Nil
  then show ?case by (simp add: parsed_Nil)
next
  case (Cons x dir)
  obtain filename doc where x: "x = (filename, doc)" by (cases x)
  show ?case
  proof (cases "(k, obj) \<in> set (parsed dir)")
    case True
    then show ?thesis using Cons.IH by auto
  next
    case False
    with Cons.prems have "endswith filename ''.xml'' \<and> parse_object doc = Inr obj \<and> k = stem filename"
      by (auto simp: x parsed_Cons split: if_splits sum.splits)
    then show ?thesis unfolding x by auto
  qed
qed

lemma parsed_mem:
  "(k, obj) \<in> set (parsed dir) \<longleftrightarrow>
     (\<exists>filename doc. (filename, doc) \<in> set dir \<and> endswith filename ''.xml'' \<and>
        parse_object doc = Inr obj \<and> k = stem filename)"
  using parsed_memI parsed_memD by blast

lemma failed_mem:
  "(filename, e) \<in> set (failed dir) \<longleftrightarrow>
     (\<exists>doc. (filename, doc) \<in> set dir \<and> endswith filename ''.xml'' \<and> parse_object doc = Inl e)"
  by (auto simp: failed_def documents_def split: sum.splits)

lemma distinct_parsed: "distinct (map fst dir) \<Longrightarrow> distinct (map fst (parsed dir))"
proof (induction dir)
  case Nil
  show ?case by (simp add: parsed_Nil)
next
  case (Cons x dir)
  obtain filename doc where x: "x = (filename, doc)" by (cases x)
  from Cons.prems have new: "filename \<notin> fst ` set dir" and d: "distinct (map fst dir)"
    by (simp_all add: x)
  have ih: "distinct (map fst (parsed dir))" using Cons.IH d by simp
  show ?case
  proof (cases "endswith filename ''.xml''")
    case False
    then show ?thesis by (simp add: x parsed_Cons ih)
  next
    case True
    have "stem filename \<notin> fst ` set (parsed dir)"
    proof
      assume "stem filename \<in> fst ` set (parsed dir)"
      then obtain obj where "(stem filename, obj) \<in> set (parsed dir)" by force
      then obtain g doc' where g: "(g, doc') \<in> set dir" "endswith g ''.xml''" "stem filename = stem g"
        unfolding parsed_mem by blast
      then have "filename = g" using True stem_inj by blast
      then show False using new g(1) by force
    qed
    then show ?thesis by (cases "parse_object doc") (simp_all add: x parsed_Cons True ih)
  qed
qed

lemma filter_key_le_one:
  "distinct (map fst d) \<Longrightarrow> length (filter (\<lambda>(k', v). k' = k) d) \<le> 1"
proof (induction d)
  case Nil
  show ?case by simp
next
  case (Cons p d)
  obtain k' v' where p: "p = (k', v')" by (cases p)
  from Cons.prems have n: "k' \<notin> fst ` set d" and dd: "distinct (map fst d)" by (simp_all add: p)
  show ?case
  proof (cases "k' = k")
    case True
    then have "filter (\<lambda>(k', v). k' = k) d = []" using n by (force simp: filter_empty_conv)
    then show ?thesis by (simp add: p True)
  next
    case False
    then show ?thesis using Cons.IH dd by (simp add: p)
  qed
qed

lemma map_of_rev_last:
  "k \<notin> set (map fst ys) \<Longrightarrow> map_of (rev (xs @ (k, v) # ys)) k = Some v"
  by (simp add: map_add_def map_of_eq_None_iff split: option.splits)
     (metis map_of_eq_None_iff set_rev set_map option.distinct(1))

lemma store_lookup: "map_of (fst (load_objects dir)) k = map_of (rev (parsed dir)) k"
  by (simp add: load_objects_eq map_of_store_all split: option.splits)

lemma set_dict_set: "set (dict_set k v d) \<subseteq> insert (k, v) (set d)"
  by (induction d) (auto split: if_splits)

lemma set_store_all: "set (store_all d xs) \<subseteq> set d \<union> set xs"
proof (induction xs arbitrary: d)
  case Nil
  show ?case by (simp add: store_all_simps)
next
  case (Cons x xs)
  obtain k v where x: "x = (k, v)" by (cases x)
  have "set (store_all (dict_set k v d) xs) \<subseteq> set (dict_set k v d) \<union> set xs"
    by (rule Cons.IH)
  with set_dict_set [of k v d] show ?case by (auto simp: x store_all_simps)
qed

lemma parse_object_xml: "parse_object doc = Inr obj \<Longrightarrow> doc = Inr (xml obj)"
  by (auto simp: parse_object_def split: sum.splits option.splits)

lemma failed_none:
  "filename \<notin> fst ` set dir \<Longrightarrow> filter (\<lambda>(f, e). f = filename) (failed dir) = []"
  by (force simp: filter_empty_conv failed_mem)

lemma failed_filter:
  "distinct (map fst dir) \<Longrightarrow> (filename, doc) \<in> set dir \<Longrightarrow> endswith filename ''.xml'' \<Longrightarrow>
     parse_object doc = Inl e \<Longrightarrow>
     filter (\<lambda>(f, e). f = filename) (failed dir) = [(filename, e)]"
proof (induction dir)
  case Nil
  then show ?case by simp
next
  case (Cons x dir)
  obtain g doc' where x: "x = (g, doc')" by (cases x)
  from Cons.prems(1) have new: "g \<notin> fst ` set dir" and d: "distinct (map fst dir)"
    by (simp_all add: x)
  show ?case
  proof (cases "g = filename")
    case True
    then have "doc' = doc" using Cons.prems(2) new by (force simp: x)
    then show ?thesis
      using failed_none [of filename dir] new True Cons.prems(3,4)
      by (simp add: x failed_Cons)
  next
    case False
    then have "(filename, doc) \<in> set dir" using Cons.prems(2) by (simp add: x)
    then have "filter (\<lambda>(f, e). f = filename) (failed dir) = [(filename, e)]"
      using Cons.IH d Cons.prems(3,4) by simp
    then show ?thesis using False
      by (cases "parse_object doc'") (simp_all add: x failed_Cons)
  qed
qed

subsection \<open>Containment and the loop over the children\<close>

lemma find_loop_eq:
  "find_loop os c cont = cont @ filter (\<lambda>obj. container obj = c) os"
  by (induction os arbitrary: cont) simp_all

lemma find_containers_eq:
  "find_containers objs c = filter (\<lambda>obj. container obj = c) (dict_values objs)"
  by (simp add: find_containers_def find_loop_eq)

lemma collect_ok:
  "list_all (convertible f) cs \<Longrightarrow>
     \<exists>es. collect f cs = Inr es \<and> list_all2 (entry_of f) (filter (\<lambda>c. tag c = ''int'') cs) es"
proof (induction cs)
  case Nil
  show ?case by simp
next
  case (Cons c cs)
  then obtain es where es: "collect f cs = Inr es"
      "list_all2 (entry_of f) (filter (\<lambda>c. tag c = ''int'') cs) es"
    by auto
  show ?case
  proof (cases "tag c = ''int''")
    case False
    then show ?thesis using es by simp
  next
    case True
    with Cons.prems obtain s t d where v: "elem_text c = Some s" "py_int s = Some t" "f t = Some d"
      by (auto simp: convertible_def int_value_def Option.bind_eq_Some_conv)
    then have "entry_of f c \<lparr> item = get c ''id'', date = d, stamp = t \<rparr>"
      by (simp add: entry_of_def int_value_def)
    then show ?thesis using es True v by simp
  qed
qed

lemma collect_fail:
  "\<not> list_all (convertible f) cs \<Longrightarrow> \<exists>e. collect f cs = Inl e"
proof (induction cs)
  case Nil
  then show ?case by simp
next
  case (Cons c cs)
  show ?case
  proof (cases "convertible f c")
    case True
    with Cons obtain e where "collect f cs = Inl e" by auto
    then show ?thesis 
      by (auto split: option.splits)
  next
    case False
    then show ?thesis
      by (auto simp: convertible_def int_value_def split: option.splits sum.splits)
  qed
qed

lemma sorted_stamps: "sorted (map stamp (sort_key stamp es))"
  by (rule sorted_sort_key)

lemma entry_present:
  "list_all2 (entry_of f) cs es \<Longrightarrow> c \<in> set cs \<Longrightarrow> \<exists>e \<in> set es. entry_of f c e"
  by (induction rule: list_all2_induct) auto

subsection \<open>The example store\<close>

lemma lookup_progress:
  "lookup progress_objs (Some ''SKILLS'') = Some skills_obj"
  "lookup progress_objs (Some ''ACH'') = Some ach_obj"
  "lookup progress_objs (Some ''BAD'') = Some bad_obj"
  "lookup progress_objs (Some ''NOPE'') = None"
  "lookup progress_objs None = None"
  "map_of progress_objs ''ACH'' = Some ach_obj"
  "map_of progress_objs ''PBOB'' = Some bob"
  "map_of progress_objs ''NOPE'' = None"
  by (simp_all add: lookup_def progress_objs_def)

lemma find_skills: "find_by_id (xml skills_obj) ''object'' ''skills'' = Some skills_elem"
  by (simp add: skills_obj_def skills_elem_def find_by_id_def descendants_def get_def)

lemma find_ach: "find_by_id (xml ach_obj) ''object'' ''achievements'' = Some ach_elem"
  by (simp add: ach_obj_def ach_elem_def find_by_id_def descendants_def get_def)

lemma find_none:
  "find_by_id (xml ach_obj) ''object'' ''skills'' = None"
  "find_by_id (xml skills_obj) ''object'' ''achievements'' = None"
  "find_by_id bag_root ''object'' ''metabolics'' = None"
  "find_by_id (xml ach_obj) ''object'' ''metabolics'' = None"
  by (simp_all add: ach_obj_def ach_elem_def skills_obj_def skills_elem_def bag_root_def bag_def
      find_by_id_def descendants_def get_def)

lemma py_int_examples:
  "py_int ''300'' = Some 300" "py_int ''100'' = Some 100" "py_int ''200'' = Some 200"
  "py_int ''50'' = Some 50" "py_int ''20'' = Some 20" "py_int ''soon'' = None"
  by (simp_all add: py_int_def strip_def is_space_def digits_val_def digit_val_def is_digit_def)

lemma convertible_examples:
  "list_all (convertible Some) (children skills_elem)"
  "list_all (convertible Some) (children ach_elem)"
  by (simp_all add: skills_elem_def ach_elem_def convertible_def int_value_def py_int_examples)

lemma skills_result:
  "analyze_skills Some progress_objs (Some ''SKILLS'') =
     Inr (Result [\<lparr> item = Some ''B'', date = 100, stamp = 100 \<rparr>,
                  \<lparr> item = Some ''C'', date = 200, stamp = 200 \<rparr>,
                  \<lparr> item = Some ''A'', date = 300, stamp = 300 \<rparr>])"
  by (simp add: analyze_skills_def lookup_progress find_skills)
     (simp add: skills_elem_def py_int_examples get_def sort_key_def)

lemma ach_result:
  "analyze_achievements Some progress_objs (Some ''ACH'') =
     Inr (Result [\<lparr> item = Some ''first'', date = 20, stamp = 20 \<rparr>,
                  \<lparr> item = None, date = 50, stamp = 50 \<rparr>,
                  \<lparr> item = Some ''second'', date = 50, stamp = 50 \<rparr>])"
  by (simp add: analyze_achievements_def lookup_progress find_ach)
     (simp add: ach_elem_def py_int_examples get_def sort_key_def)

lemma find_bob:
  "find_by_id bob_root ''object'' ''metabolics'' =
     Some (Element ''object'' [(''id'', ''metabolics'')] None [])"
  "find_by_id (Element ''object'' [(''id'', ''metabolics'')] None []) t i = None"
  by (simp_all add: bob_root_def find_by_id_def descendants_def get_def)

section \<open>The claims\<close>

text \<open>
  C2. Of the n documents of a directory (the entries named \<^verbatim>\<open>*.xml\<close>), k fail to
  parse. The loader prints exactly one error for each of the k, in order, and nothing
  else; the store holds at most n - k objects; and every document was processed: the
  keys of the store are the identifiers of all the documents that parse.
\<close>

theorem load_objects_collects_errors:
  "snd (load_objects dir) = failed dir \<and>
   length (snd (load_objects dir)) =
     length (filter (\<lambda>(filename, doc). isl (parse_object doc)) (documents dir)) \<and>
   length (fst (load_objects dir)) \<le> length (documents dir) - length (snd (load_objects dir)) \<and>
   set (map fst (fst (load_objects dir))) = set (map fst (parsed dir))"
proof -
  have "length (fst (load_objects dir)) \<le> length (parsed dir)"
    using length_store_all [of "[]" "parsed dir"] by (simp add: load_objects_eq)
  moreover have "length (parsed dir) = length (documents dir) - length (failed dir)"
    using length_parsed_failed [of dir] by simp
  ultimately show ?thesis
    by (simp add: load_objects_eq length_failed [symmetric] keys_store_all del: set_map)
qed

theorem load_objects_collects_errors_witness:
  "length (documents example_dir) = 3 \<and>
   snd (load_objects example_dir) = [(''broken.xml'', ParseError ''no element found'')] \<and>
   failed example_dir = [(''broken.xml'', ParseError ''no element found'')] \<and>
   length (fst (load_objects example_dir)) = 2 \<and>
   set (map fst (parsed example_dir)) = {''PANNA'', ''BBAG''}"
proof -
  have n: "length (documents example_dir) = 3"
    by (simp add: documents_def example_dir_def endswith_def)
  show ?thesis
    using load_objects_collects_errors [of example_dir] by (simp add: n load_example)
qed

text \<open>
  C4. The chain of \<^verbatim>\<open>get_object_counts\<close> gives every class one of the six keys,
  the rules applied in order: a class that starts with \<^verbatim>\<open>bag_\<close> is counted under
  \<^verbatim>\<open>Bags\<close> whatever else it is, and any other class follows the remaining rules.
\<close>

theorem classify_total_with_priority:
  "classify c \<in> set categories \<and>
   (startswith c ''bag_'' \<longrightarrow> classify c = ''Bags'') \<and>
   (\<not> startswith c ''bag_'' \<longrightarrow>
      classify c =
        (if c = ''dc'' then ''Data Containers''
         else if c = ''human'' then ''Players''
         else if c = ''group'' then ''Groups''
         else if startswith c ''trant_'' then ''Trees/Plants''
         else ''Items''))"
  by (simp add: classify_def categories_def)

theorem classify_total_with_priority_witness:
  "startswith ''bag_large'' ''bag_'' \<and> classify ''bag_large'' = ''Bags'' \<and>
   classify ''bag_large'' \<in> set categories"
  using classify_total_with_priority [of "''bag_large''"]
  by (simp add: startswith_def categories_def)

text \<open>
  C5. The counts of \<^verbatim>\<open>get_object_counts\<close> sum to the number of objects in the store.
  Each key of the result is one of the six categories and occurs once, and its count is
  the number of objects whose class falls under it.
\<close>

theorem get_object_counts_partition:
  "sum_list (map snd (get_object_counts objs)) = int (length objs) \<and>
   (\<forall>c. count_of (get_object_counts objs) c =
      int (length (filter (\<lambda>obj. classify (obj_class obj) = c) (dict_values objs)))) \<and>
   distinct (map fst (get_object_counts objs)) \<and>
   set (map fst (get_object_counts objs)) \<subseteq> set categories"
proof -
  have total: "sum_list (map snd (get_object_counts objs)) = int (length objs)"
    by (simp add: get_object_counts_def sum_count_loop dict_values_def)
  have each: "count_of (get_object_counts objs) c =
      int (length (filter (\<lambda>obj. classify (obj_class obj) = c) (dict_values objs)))" for c
    by (simp add: get_object_counts_def count_of_count_loop count_of_Nil)
  have once: "distinct (map fst (get_object_counts objs))"
    by (simp add: get_object_counts_def distinct_count_loop)
  have keys: "set (map fst (get_object_counts objs)) \<subseteq> set categories"
    unfolding get_object_counts_def keys_count_loop
    using classify_in_categories by auto
  from total each once keys show ?thesis by blast
qed

theorem get_object_counts_partition_witness:
  "get_object_counts (fst (load_objects example_dir)) = [(''Players'', 1), (''Bags'', 1)] \<and>
   sum_list (map snd (get_object_counts (fst (load_objects example_dir)))) = 2 \<and>
   count_of (get_object_counts (fst (load_objects example_dir))) ''Items'' = 0"
proof -
  have c: "get_object_counts (fst (load_objects example_dir)) = [(''Players'', 1), (''Bags'', 1)]"
    by (simp add: load_example get_object_counts_def dict_values_def incr_def classify_def
        startswith_def anna_def bag_def)
  show ?thesis
    using get_object_counts_partition [of "fst (load_objects example_dir)"]
    by (simp add: c count_of_def)
qed

text \<open>
  C1, as amended. In a directory whose names are distinct, the object parsed from a
  document is stored under the name of its file without the extension \<^verbatim>\<open>.xml\<close>. The
  field \<^verbatim>\<open>'tsid'\<close> of the object is the attribute \<^verbatim>\<open>tsid\<close> of the root, whatever the
  file is called.
\<close>

theorem stored_under_stem:
  assumes "distinct (map fst dir)" and "(filename, doc) \<in> set dir"
    and "endswith filename ''.xml''" and "parse_object doc = Inr obj"
  shows "map_of (fst (load_objects dir)) (stem filename) = Some obj \<and>
         (\<exists>root. doc = Inr root \<and> tsid obj = get root ''tsid'' \<and> xml obj = root)"
proof -
  have "(stem filename, obj) \<in> set (rev (parsed dir))"
    using assms(2-4) by (auto simp: parsed_mem)
  moreover have "distinct (map fst (rev (parsed dir)))"
    using distinct_parsed [OF assms(1)] by (simp add: rev_map [symmetric])
  ultimately have "map_of (rev (parsed dir)) (stem filename) = Some obj"
    by (rule map_of_is_SomeI [rotated])
  moreover have "\<exists>root. doc = Inr root \<and> tsid obj = get root ''tsid'' \<and> xml obj = root"
    using assms(4) by (auto simp: parse_object_def split: sum.splits option.splits)
  ultimately show ?thesis by (simp add: store_lookup)
qed


theorem stored_under_stem_witness:
  "distinct (map fst example_dir) \<and> (''BBAG.xml'', Inr bag_root) \<in> set example_dir \<and>
   endswith ''BBAG.xml'' ''.xml'' \<and> parse_object (Inr bag_root) = Inr bag \<and>
   map_of (fst (load_objects example_dir)) (stem ''BBAG.xml'') = Some bag \<and>
   tsid bag = get bag_root ''tsid''"
proof -
  have a: "distinct (map fst example_dir)" by (simp add: example_dir_def)
  have b: "(''BBAG.xml'', Inr bag_root) \<in> set example_dir" by (simp add: example_dir_def)
  have c: "endswith ''BBAG.xml'' ''.xml''" by (simp add: endswith_def)
  from stored_under_stem [OF a b c parse_bag] a b c parse_bag show ?thesis by simp
qed

text \<open>
  The claim as stated fails: the file \<^verbatim>\<open>A.xml\<close> with the root
  \<^verbatim>\<open><game_object tsid="B"/>\<close> parses to an object whose \<^verbatim>\<open>'tsid'\<close> is \<^verbatim>\<open>B\<close>.
\<close>

theorem parse_object_id_counterexample:
  "parse_object (Inr renamed_root) = Inr renamed \<and> endswith ''A.xml'' ''.xml'' \<and>
   tsid renamed \<noteq> Some (stem ''A.xml'') \<and>
   load_objects [(''A.xml'', Inr renamed_root)] = ([(''A'', renamed)], [])"
  by (simp add: parse_object_def renamed_root_def renamed_def get_def stem_def
      load_objects_def endswith_def)

text \<open>
  C8. The store has each key once, so a lookup finds one object or none. The object
  under a key is the last one, in the order of the listing, that was parsed for that
  key; a key no parsed document has is not found.
\<close>

theorem store_last_write_wins:
  "distinct (map fst (fst (load_objects dir))) \<and>
   (\<forall>k. length (filter (\<lambda>(k', obj). k' = k) (fst (load_objects dir))) \<le> 1) \<and>
   (\<forall>k. map_of (fst (load_objects dir)) k = map_of (rev (parsed dir)) k) \<and>
   (\<forall>k obj xs ys. parsed dir = xs @ (k, obj) # ys \<and> k \<notin> set (map fst ys) \<longrightarrow>
      map_of (fst (load_objects dir)) k = Some obj) \<and>
   (\<forall>k. k \<notin> set (map fst (parsed dir)) \<longrightarrow> map_of (fst (load_objects dir)) k = None)"
proof -
  have d: "distinct (map fst (fst (load_objects dir)))"
    by (simp add: load_objects_eq distinct_store_all)
  have l: "map_of (fst (load_objects dir)) k = Some obj"
    if "parsed dir = xs @ (k, obj) # ys" "k \<notin> set (map fst ys)" for k obj xs ys
    using that map_of_rev_last [of k ys xs obj] by (simp add: store_lookup)
  have n: "map_of (fst (load_objects dir)) k = None" if "k \<notin> set (map fst (parsed dir))" for k
    using that by (simp add: store_lookup map_of_eq_None_iff)
  show ?thesis using d filter_key_le_one [OF d] store_lookup l n by blast
qed


theorem store_last_write_wins_witness:
  "parsed twice_dir = [(''A'', bag)] @ (''A'', anna) # [] \<and>
   ''A'' \<notin> set (map fst ([] :: (string \<times> glitch_object) list)) \<and>
   map_of (fst (load_objects twice_dir)) ''A'' = Some anna \<and>
   ''B'' \<notin> set (map fst (parsed twice_dir)) \<and>
   map_of (fst (load_objects twice_dir)) ''B'' = None"
proof -
  have p: "parsed twice_dir = [(''A'', bag)] @ (''A'', anna) # []"
    by (simp add: twice_dir_def parsed_Cons parsed_Nil endswith_def stem_def parse_anna
        parse_bag parse_object_def [of "Inl e" for e])
  show ?thesis using store_last_write_wins [of twice_dir] by (simp add: p)
qed

text \<open>
  C9. A document whose root has an attribute \<^verbatim>\<open>ts\<close> that is no integer literal does
  not parse: \<^verbatim>\<open>parse_object\<close> raises, the loader prints an error for the file, and no
  object of the store has that root. When the names of the directory are distinct, the
  key of the document is absent from the store and the file has exactly one error.
\<close>

theorem bad_timestamp_fails_document:
  assumes "(filename, Inr root) \<in> set dir" and "endswith filename ''.xml''"
    and "get root ''ts'' = Some s" and "py_int s = None"
  shows "parse_object (Inr root) = Inl (ValueError s) \<and>
         (filename, ValueError s) \<in> set (snd (load_objects dir)) \<and>
         root \<notin> xml ` set (dict_values (fst (load_objects dir))) \<and>
         (distinct (map fst dir) \<longrightarrow>
            map_of (fst (load_objects dir)) (stem filename) = None \<and>
            filter (\<lambda>(f, e). f = filename) (snd (load_objects dir)) = [(filename, ValueError s)])"
proof -
  have p: "parse_object (Inr root) = Inl (ValueError s)"
    using assms(3,4) by (simp add: parse_object_def)
  have m: "(filename, ValueError s) \<in> set (snd (load_objects dir))"
    using assms(1,2) p by (auto simp: load_objects_eq failed_mem)
  have x: "root \<notin> xml ` set (dict_values (fst (load_objects dir)))"
  proof
    assume "root \<in> xml ` set (dict_values (fst (load_objects dir)))"
    then obtain k obj where "(k, obj) \<in> set (store_all [] (parsed dir))" and r: "xml obj = root"
      by (auto simp: dict_values_def load_objects_eq)
    then have "(k, obj) \<in> set (parsed dir)" using set_store_all [of "[]" "parsed dir"] by auto
    then obtain doc where "parse_object doc = Inr obj" using parsed_memD by blast
    then have "parse_object (Inr root) = Inr obj" using parse_object_xml r by blast
    then show False using p by simp
  qed
  have d: "map_of (fst (load_objects dir)) (stem filename) = None \<and>
      filter (\<lambda>(f, e). f = filename) (snd (load_objects dir)) = [(filename, ValueError s)]"
    if dist: "distinct (map fst dir)"
  proof -
    have "stem filename \<notin> set (map fst (parsed dir))"
    proof
      assume "stem filename \<in> set (map fst (parsed dir))"
      then obtain obj where "(stem filename, obj) \<in> set (parsed dir)" by force
      then obtain g doc where g: "(g, doc) \<in> set dir" "endswith g ''.xml''"
          "parse_object doc = Inr obj" "stem filename = stem g"
        using parsed_memD by blast
      then have "g = filename" using assms(2) stem_inj by metis
      then have "doc = Inr root" using dist g(1) assms(1) by (metis eq_key_imp_eq_value)
      then show False using g(3) p by simp
    qed
    then have "map_of (fst (load_objects dir)) (stem filename) = None"
      by (simp add: store_lookup map_of_eq_None_iff)
    moreover have "filter (\<lambda>(f, e). f = filename) (snd (load_objects dir)) = [(filename, ValueError s)]"
      using failed_filter [OF dist assms(1,2) p] by (simp add: load_objects_eq)
    ultimately show ?thesis by simp
  qed
  from p m x d show ?thesis by blast
qed

theorem bad_timestamp_fails_document_witness:
  "(''LATE.xml'', Inr late_root) \<in> set late_dir \<and> endswith ''LATE.xml'' ''.xml'' \<and>
   get late_root ''ts'' = Some ''soon'' \<and> py_int ''soon'' = None \<and>
   distinct (map fst late_dir) \<and>
   parse_object (Inr late_root) = Inl (ValueError ''soon'') \<and>
   map_of (fst (load_objects late_dir)) (stem ''LATE.xml'') = None \<and>
   filter (\<lambda>(f, e). f = ''LATE.xml'') (snd (load_objects late_dir)) =
     [(''LATE.xml'', ValueError ''soon'')]"
proof -
  have a: "(''LATE.xml'', Inr late_root) \<in> set late_dir" by (simp add: late_dir_def)
  have b: "endswith ''LATE.xml'' ''.xml''" by (simp add: endswith_def)
  have c: "get late_root ''ts'' = Some ''soon''" by (simp add: late_root_def get_def)
  have d: "py_int ''soon'' = None"
    by (simp add: py_int_def strip_def is_space_def is_digit_def)
  have e: "distinct (map fst late_dir)" by (simp add: late_dir_def)
  from bad_timestamp_fails_document [OF a b c d] a b c d e show ?thesis by simp
qed

text \<open>
  C3, as amended. For every store and every argument, \<^verbatim>\<open>find_containers\<close> returns the
  objects of the store whose container equals the argument, in the order of the store,
  and the empty list when there is none. For an argument that is an identifier, an
  object without a container is never returned.
\<close>

theorem find_containers_exact:
  "set (find_containers objs c) = {e \<in> set (dict_values objs). container e = c} \<and>
   find_containers objs c = filter (\<lambda>e. container e = c) (dict_values objs) \<and>
   ((\<forall>e \<in> set (dict_values objs). container e \<noteq> c) \<longrightarrow> find_containers objs c = []) \<and>
   (\<forall>e \<in> set (dict_values objs). container e = None \<longrightarrow> e \<notin> set (find_containers objs (Some i)))"
  by (auto simp: find_containers_eq filter_empty_conv)

theorem find_containers_exact_witness:
  "find_containers (fst (load_objects example_dir)) (Some ''PANNA'') = [bag] \<and>
   find_containers (fst (load_objects example_dir)) (Some ''NOPE'') = [] \<and>
   container anna = None \<and>
   anna \<notin> set (find_containers (fst (load_objects example_dir)) (Some ''PANNA''))"
  using find_containers_exact [of "fst (load_objects example_dir)" "Some ''PANNA''" "''PANNA''"]
    find_containers_exact [of "fst (load_objects example_dir)" "Some ''NOPE''" "''NOPE''"]
  by (simp add: load_example dict_values_def anna_def bag_def)


text \<open>
  The claim as stated fails for the argument \<^verbatim>\<open>None\<close>, which \<^verbatim>\<open>main\<close> passes for a
  player whose root has no \<^verbatim>\<open>tsid\<close>: the objects without a container are returned.
\<close>

theorem find_containers_none_counterexample:
  "container anna = None \<and>
   anna \<in> set (find_containers (fst (load_objects example_dir)) None)"
  by (simp add: load_example find_containers_def dict_values_def anna_def bag_def)

text \<open>
  C6, as amended. When the object is in the store, its tree holds the collection
  element, and the text of every child tagged \<^verbatim>\<open>int\<close> is an integer literal whose date
  conversion succeeds, \<^verbatim>\<open>analyze_skills\<close> and \<^verbatim>\<open>analyze_achievements\<close> return one entry
  for each child tagged \<^verbatim>\<open>int\<close> and for no other: the id attribute of the child with
  its integer. The entries are sorted by the integer, non-decreasing, and entries with
  equal integers keep the order of the document.
\<close>

theorem timeline_sorted_stable:
  "(lookup objs k = Some obj \<and> find_by_id (xml obj) ''object'' ''skills'' = Some el \<and>
      list_all (convertible f) (children el) \<longrightarrow>
    (\<exists>es. list_all2 (entry_of f) (filter (\<lambda>c. tag c = ''int'') (children el)) es \<and>
       analyze_skills f objs k = Inr (Result (sort_key stamp es)) \<and>
       sorted (map stamp (sort_key stamp es)) \<and>
       (\<forall>t. filter (\<lambda>e. stamp e = t) (sort_key stamp es) = filter (\<lambda>e. stamp e = t) es))) \<and>
   (lookup objs k' = Some obj' \<and> find_by_id (xml obj') ''object'' ''achievements'' = Some el' \<and>
      list_all (convertible f) (children el') \<longrightarrow>
    (\<exists>es. list_all2 (entry_of f) (filter (\<lambda>c. tag c = ''int'') (children el')) es \<and>
       analyze_achievements f objs k' = Inr (Result (sort_key stamp es)) \<and>
       sorted (map stamp (sort_key stamp es)) \<and>
       (\<forall>t. filter (\<lambda>e. stamp e = t) (sort_key stamp es) = filter (\<lambda>e. stamp e = t) es)))"
proof -
  have skills: "\<exists>es. list_all2 (entry_of f) (filter (\<lambda>c. tag c = ''int'') (children el)) es \<and>
       analyze_skills f objs k = Inr (Result (sort_key stamp es)) \<and>
       sorted (map stamp (sort_key stamp es)) \<and>
       (\<forall>t. filter (\<lambda>e. stamp e = t) (sort_key stamp es) = filter (\<lambda>e. stamp e = t) es)"
    if "lookup objs k = Some obj" "find_by_id (xml obj) ''object'' ''skills'' = Some el"
      "list_all (convertible f) (children el)"
  proof -
    from collect_ok [OF that(3)] obtain es where es: "collect f (children el) = Inr es"
        "list_all2 (entry_of f) (filter (\<lambda>c. tag c = ''int'') (children el)) es"
      by blast
    have "analyze_skills f objs k = Inr (Result (sort_key stamp es))"
      by (simp add: analyze_skills_def that(1,2) es(1))
    with es(2) show ?thesis using sorted_stamps [of es] sort_key_stable [of stamp _ es] by blast
  qed
  have achievements: "\<exists>es. list_all2 (entry_of f) (filter (\<lambda>c. tag c = ''int'') (children el')) es \<and>
       analyze_achievements f objs k' = Inr (Result (sort_key stamp es)) \<and>
       sorted (map stamp (sort_key stamp es)) \<and>
       (\<forall>t. filter (\<lambda>e. stamp e = t) (sort_key stamp es) = filter (\<lambda>e. stamp e = t) es)"
    if "lookup objs k' = Some obj'" "find_by_id (xml obj') ''object'' ''achievements'' = Some el'"
      "list_all (convertible f) (children el')"
  proof -
    from collect_ok [OF that(3)] obtain es where es: "collect f (children el') = Inr es"
        "list_all2 (entry_of f) (filter (\<lambda>c. tag c = ''int'') (children el')) es"
      by blast
    have "analyze_achievements f objs k' = Inr (Result (sort_key stamp es))"
      by (simp add: analyze_achievements_def that(1,2) es(1))
    with es(2) show ?thesis using sorted_stamps [of es] sort_key_stable [of stamp _ es] by blast
  qed
  from skills achievements show ?thesis by blast
qed

theorem timeline_sorted_stable_witness:
  "lookup progress_objs (Some ''SKILLS'') = Some skills_obj \<and>
   find_by_id (xml skills_obj) ''object'' ''skills'' = Some skills_elem \<and>
   list_all (convertible Some) (children skills_elem) \<and>
   analyze_skills Some progress_objs (Some ''SKILLS'') =
     Inr (Result [\<lparr> item = Some ''B'', date = 100, stamp = 100 \<rparr>,
                  \<lparr> item = Some ''C'', date = 200, stamp = 200 \<rparr>,
                  \<lparr> item = Some ''A'', date = 300, stamp = 300 \<rparr>]) \<and>
   lookup progress_objs (Some ''ACH'') = Some ach_obj \<and>
   find_by_id (xml ach_obj) ''object'' ''achievements'' = Some ach_elem \<and>
   list_all (convertible Some) (children ach_elem) \<and>
   analyze_achievements Some progress_objs (Some ''ACH'') =
     Inr (Result [\<lparr> item = Some ''first'', date = 20, stamp = 20 \<rparr>,
                  \<lparr> item = None, date = 50, stamp = 50 \<rparr>,
                  \<lparr> item = Some ''second'', date = 50, stamp = 50 \<rparr>])"
  using timeline_sorted_stable [where objs = progress_objs and k = "Some ''SKILLS''" and obj = skills_obj
      and el = skills_elem and f = Some and k' = "Some ''ACH''" and obj' = ach_obj
      and el' = ach_elem]
  by (simp add: lookup_progress find_skills find_ach convertible_examples skills_result ach_result)


text \<open>
  The claim as stated fails: with the children \<^verbatim>\<open><int id="A">100</int>\<close> and
  \<^verbatim>\<open><int id="B">soon</int>\<close> the method raises \<^verbatim>\<open>ValueError\<close> and returns no list.
\<close>

theorem timeline_bad_integer_counterexample:
  "lookup progress_objs (Some ''BAD'') = Some bad_obj \<and>
   children (the (find_by_id (xml bad_obj) ''object'' ''skills'')) =
     [Element ''int'' [(''id'', ''A'')] (Some ''100'') [],
      Element ''int'' [(''id'', ''B'')] (Some ''soon'') []] \<and>
   analyze_skills Some progress_objs (Some ''BAD'') = Inl (ValueError ''soon'')"
  by (simp add: analyze_skills_def lookup_progress)
     (simp add: bad_obj_def find_by_id_def descendants_def get_def py_int_examples)


text \<open>
  C7. An absent node gives the outcome for absence and no exception: without the
  metabolics element energy, mood and tank are \<^verbatim>\<open>Unknown\<close>, and so is each of them
  whose own element is absent; an absent player, skills object or achievements object
  gives the message for it, and so does an absent collection element.
\<close>

theorem absent_node_not_found:
  "(find_by_id x0 ''object'' ''metabolics'' = None \<longrightarrow>
      metabolics_of x0 = (''Unknown'', ''Unknown'', Some ''Unknown'')) \<and>
   (find_by_id x ''object'' ''metabolics'' = Some m \<and> find_by_id m ''prop'' ''energy'' = None \<longrightarrow>
      fst (metabolics_of x) = ''Unknown'') \<and>
   (find_by_id x ''object'' ''metabolics'' = Some m \<and> find_by_id m ''prop'' ''mood'' = None \<longrightarrow>
      fst (snd (metabolics_of x)) = ''Unknown'') \<and>
   (find_by_id x ''object'' ''metabolics'' = Some m \<and> find_by_id m ''int'' ''tank'' = None \<longrightarrow>
      snd (snd (metabolics_of x)) = Some ''Unknown'') \<and>
   (map_of objs p0 = None \<longrightarrow>
      analyze_player g objs p0 = Inr (Message (''Player '' @ p0 @ '' not found''))) \<and>
   (map_of objs p = Some player \<and> find_by_id (xml player) ''object'' ''metabolics'' = None \<and>
      g (timestamp player) = Some d \<longrightarrow>
      analyze_player g objs p =
        Inr (Result \<lparr> name = label player, player_key = p, energy = ''Unknown'',
                       mood = ''Unknown'', tank = Some ''Unknown'',
                       references = length (findall (xml player) ''objref''),
                       last_update = d \<rparr>)) \<and>
   (lookup objs k0 = None \<longrightarrow>
      analyze_skills f objs k0 = Inr (Message ''Skills object not found'') \<and>
      analyze_achievements f objs k0 = Inr (Message ''Achievements object not found'')) \<and>
   (lookup objs k = Some obj \<and> find_by_id (xml obj) ''object'' ''skills'' = None \<longrightarrow>
      analyze_skills f objs k = Inr (Message ''No skills data found'')) \<and>
   (lookup objs k' = Some obj' \<and> find_by_id (xml obj') ''object'' ''achievements'' = None \<longrightarrow>
      analyze_achievements f objs k' = Inr (Message ''No achievements data found''))"
  by (simp add: metabolics_of_def analyze_player_def analyze_skills_def analyze_achievements_def)

theorem absent_node_not_found_witness:
  "find_by_id bag_root ''object'' ''metabolics'' = None \<and>
   metabolics_of bag_root = (''Unknown'', ''Unknown'', Some ''Unknown'') \<and>
   find_by_id bob_root ''object'' ''metabolics'' =
     Some (Element ''object'' [(''id'', ''metabolics'')] None []) \<and>
   find_by_id (Element ''object'' [(''id'', ''metabolics'')] None []) ''prop'' ''energy'' = None \<and>
   find_by_id (Element ''object'' [(''id'', ''metabolics'')] None []) ''prop'' ''mood'' = None \<and>
   find_by_id (Element ''object'' [(''id'', ''metabolics'')] None []) ''int'' ''tank'' = None \<and>
   metabolics_of bob_root = (''Unknown'', ''Unknown'', Some ''Unknown'') \<and>
   map_of progress_objs ''NOPE'' = None \<and>
   analyze_player Some progress_objs ''NOPE'' = Inr (Message ''Player NOPE not found'') \<and>
   map_of progress_objs ''ACH'' = Some ach_obj \<and>
   find_by_id (xml ach_obj) ''object'' ''metabolics'' = None \<and>
   Some (timestamp ach_obj) = Some 0 \<and>
   analyze_player Some progress_objs ''ACH'' =
     Inr (Result \<lparr> name = ''Unknown'', player_key = ''ACH'', energy = ''Unknown'',
                    mood = ''Unknown'', tank = Some ''Unknown'', references = 0,
                    last_update = 0 \<rparr>) \<and>
   lookup progress_objs None = None \<and>
   analyze_skills Some progress_objs None = Inr (Message ''Skills object not found'') \<and>
   analyze_achievements Some progress_objs None =
     Inr (Message ''Achievements object not found'') \<and>
   lookup progress_objs (Some ''ACH'') = Some ach_obj \<and>
   find_by_id (xml ach_obj) ''object'' ''skills'' = None \<and>
   analyze_skills Some progress_objs (Some ''ACH'') = Inr (Message ''No skills data found'') \<and>
   lookup progress_objs (Some ''SKILLS'') = Some skills_obj \<and>
   find_by_id (xml skills_obj) ''object'' ''achievements'' = None \<and>
   analyze_achievements Some progress_objs (Some ''SKILLS'') =
     Inr (Message ''No achievements data found'')"
  using absent_node_not_found [where ?x0.0 = bag_root and x = bob_root
      and m = "Element ''object'' [(''id'', ''metabolics'')] None []"
      and objs = progress_objs and ?p0.0 = "''NOPE''" and ?k0.0 = None
      and k = "Some ''ACH''" and obj = ach_obj and k' = "Some ''SKILLS''" and obj' = skills_obj
      and f = Some and g = Some and p = "''ACH''" and player = ach_obj and d = 0]
  by (simp add: lookup_progress find_none find_bob prod_eq_iff)
     (simp add: ach_obj_def ach_elem_def findall_def descendants_def)


text \<open>
  C10. A child tagged \<^verbatim>\<open>int\<close> without an id attribute is in the result, with
  \<^verbatim>\<open>None\<close> for its id and with its integer and date; the result has one entry for each
  child tagged \<^verbatim>\<open>int\<close>. Whether the loop raises depends only on the tags, the texts
  and the date conversion of the children, never on an id.
\<close>

theorem missing_id_kept:
  "(lookup objs k = Some obj \<and> find_by_id (xml obj) ''object'' ''skills'' = Some el \<and>
      list_all (convertible f) (children el) \<and>
      c \<in> set (children el) \<and> tag c = ''int'' \<and> get c ''id'' = None \<longrightarrow>
    (\<exists>es. analyze_skills f objs k = Inr (Result es) \<and>
       length es = length (filter (\<lambda>c. tag c = ''int'') (children el)) \<and>
       (\<exists>e \<in> set es. item e = None \<and> Some (stamp e) = int_value c \<and>
          Some (date e) = Option.bind (int_value c) f))) \<and>
   (lookup objs k' = Some obj' \<and> find_by_id (xml obj') ''object'' ''achievements'' = Some el' \<and>
      list_all (convertible f) (children el') \<and>
      c' \<in> set (children el') \<and> tag c' = ''int'' \<and> get c' ''id'' = None \<longrightarrow>
    (\<exists>es. analyze_achievements f objs k' = Inr (Result es) \<and>
       length es = length (filter (\<lambda>c. tag c = ''int'') (children el')) \<and>
       (\<exists>e \<in> set es. item e = None \<and> Some (stamp e) = int_value c' \<and>
          Some (date e) = Option.bind (int_value c') f))) \<and>
   ((\<exists>e. collect f cs = Inl e) \<longleftrightarrow> \<not> list_all (convertible f) cs)"
proof -
  have raises: "(\<exists>e. collect f cs = Inl e) \<longleftrightarrow> \<not> list_all (convertible f) cs"
    using collect_ok [of f cs] collect_fail [of f cs] by auto
  have kept: "\<exists>es'. collect f cs = Inr es \<and> es' = sort_key stamp es \<and>
       length es' = length (filter (\<lambda>c. tag c = ''int'') cs) \<and>
       (\<exists>e \<in> set es'. item e = None \<and> Some (stamp e) = int_value x \<and>
          Some (date e) = Option.bind (int_value x) f)"
    if "collect f cs = Inr es" "list_all2 (entry_of f) (filter (\<lambda>c. tag c = ''int'') cs) es"
      "x \<in> set cs" "tag x = ''int''" "get x ''id'' = None" for cs es x
  proof -
    from that(3,4) have "x \<in> set (filter (\<lambda>c. tag c = ''int'') cs)" by simp
    from entry_present [OF that(2) this] obtain e where "e \<in> set es" "entry_of f x e" by blast
    then have "e \<in> set (sort_key stamp es) \<and> item e = None \<and> Some (stamp e) = int_value x \<and>
        Some (date e) = Option.bind (int_value x) f"
      using that(5) by (simp add: entry_of_def)
    moreover have "length (sort_key stamp es) = length (filter (\<lambda>c. tag c = ''int'') cs)"
      using that(2) by (simp add: list_all2_lengthD)
    ultimately show ?thesis using that(1) by blast
  qed
  have skills: "\<exists>es. analyze_skills f objs k = Inr (Result es) \<and>
       length es = length (filter (\<lambda>c. tag c = ''int'') (children el)) \<and>
       (\<exists>e \<in> set es. item e = None \<and> Some (stamp e) = int_value c \<and>
          Some (date e) = Option.bind (int_value c) f)"
    if "lookup objs k = Some obj" "find_by_id (xml obj) ''object'' ''skills'' = Some el"
      "list_all (convertible f) (children el)"
      "c \<in> set (children el)" "tag c = ''int''" "get c ''id'' = None"
  proof -
    from collect_ok [OF that(3)] obtain es where es: "collect f (children el) = Inr es"
        "list_all2 (entry_of f) (filter (\<lambda>c. tag c = ''int'') (children el)) es"
      by blast
    have "analyze_skills f objs k = Inr (Result (sort_key stamp es))"
      by (simp add: analyze_skills_def that(1,2) es(1))
    with kept [OF es that(4,5,6)] show ?thesis by auto
  qed
  have achievements: "\<exists>es. analyze_achievements f objs k' = Inr (Result es) \<and>
       length es = length (filter (\<lambda>c. tag c = ''int'') (children el')) \<and>
       (\<exists>e \<in> set es. item e = None \<and> Some (stamp e) = int_value c' \<and>
          Some (date e) = Option.bind (int_value c') f)"
    if "lookup objs k' = Some obj'" "find_by_id (xml obj') ''object'' ''achievements'' = Some el'"
      "list_all (convertible f) (children el')"
      "c' \<in> set (children el')" "tag c' = ''int''" "get c' ''id'' = None"
  proof -
    from collect_ok [OF that(3)] obtain es where es: "collect f (children el') = Inr es"
        "list_all2 (entry_of f) (filter (\<lambda>c. tag c = ''int'') (children el')) es"
      by blast
    have "analyze_achievements f objs k' = Inr (Result (sort_key stamp es))"
      by (simp add: analyze_achievements_def that(1,2) es(1))
    with kept [OF es that(4,5,6)] show ?thesis by auto
  qed
  from skills achievements raises show ?thesis by blast
qed

theorem missing_id_kept_witness:
  "lookup progress_objs (Some ''ACH'') = Some ach_obj \<and>
   find_by_id (xml ach_obj) ''object'' ''achievements'' = Some ach_elem \<and>
   list_all (convertible Some) (children ach_elem) \<and>
   Element ''int'' [] (Some ''50'') [] \<in> set (children ach_elem) \<and>
   get (Element ''int'' [] (Some ''50'') []) ''id'' = None \<and>
   analyze_achievements Some progress_objs (Some ''ACH'') =
     Inr (Result [\<lparr> item = Some ''first'', date = 20, stamp = 20 \<rparr>,
                  \<lparr> item = None, date = 50, stamp = 50 \<rparr>,
                  \<lparr> item = Some ''second'', date = 50, stamp = 50 \<rparr>])"
  using missing_id_kept [where objs = progress_objs and k' = "Some ''ACH''" and obj' = ach_obj
      and el' = ach_elem and f = Some and c' = "Element ''int'' [] (Some ''50'') []"
      and k = "Some ''NOPE''"]
  by (simp add: lookup_progress find_ach convertible_examples ach_result get_def)
     (simp add: ach_elem_def)


end
